theory Spec2Isabelle
  imports Complex_Main
begin

section \<open>Smart model router: difficulty classifier and accounting\<close>

text \<open>
  A shallow embedding of \<^verbatim>\<open>app/router/classifier.py\<close>, \<^verbatim>\<open>app/config.py\<close>,
  \<^verbatim>\<open>app/database.py\<close> and \<^verbatim>\<open>app/main.py\<close>.

  Conventions. A Python \<^verbatim>\<open>str\<close> is a \<^typ>\<open>string\<close> whose characters are the code
  points 0..255 (ASCII and Latin-1); the character classes below are Python's for that
  range. A Python \<^verbatim>\<open>float\<close> is an exact \<^typ>\<open>real\<close>: rounding of binary floating point
  is outside the model. Python's \<^verbatim>\<open>int\<close> is \<^typ>\<open>int\<close>, a length is a \<^typ>\<open>nat\<close>.
\<close>

subsection \<open>Strings: case, whitespace, substrings, decimal numbers\<close>

definition code_of :: "char \<Rightarrow> nat" where
  "code_of c = of_char c"

text \<open>\<^verbatim>\<open>str.lower\<close> on one character: A-Z and the Latin-1 capitals move up by 32.\<close>

definition is_upper :: "char \<Rightarrow> bool" where
  "is_upper c = (let n = code_of c in
     (65 \<le> n \<and> n \<le> 90) \<or> (192 \<le> n \<and> n \<le> 214) \<or> (216 \<le> n \<and> n \<le> 222))"

definition lower_char :: "char \<Rightarrow> char" where
  "lower_char c = (if is_upper c then char_of (code_of c + 32) else c)"

definition lower :: "string \<Rightarrow> string" where
  "lower s = map lower_char s"

text \<open>\<^verbatim>\<open>str.isspace\<close> on one character; also the class \<^verbatim>\<open>\s\<close> of \<^verbatim>\<open>re\<close>.\<close>

definition is_space :: "char \<Rightarrow> bool" where
  "is_space c = (let n = code_of c in
     (9 \<le> n \<and> n \<le> 13) \<or> (28 \<le> n \<and> n \<le> 32) \<or> n = 133 \<or> n = 160)"

text \<open>The class \<^verbatim>\<open>\w\<close> of \<^verbatim>\<open>re\<close> on a \<^verbatim>\<open>str\<close> pattern: alphanumeric or underscore.\<close>

definition is_word :: "char \<Rightarrow> bool" where
  "is_word c = (let n = code_of c in
     (48 \<le> n \<and> n \<le> 57) \<or> (65 \<le> n \<and> n \<le> 90) \<or> n = 95 \<or> (97 \<le> n \<and> n \<le> 122)
     \<or> n = 170 \<or> n = 178 \<or> n = 179 \<or> n = 181 \<or> n = 185 \<or> n = 186
     \<or> (188 \<le> n \<and> n \<le> 190) \<or> (192 \<le> n \<and> n \<le> 214) \<or> (216 \<le> n \<and> n \<le> 246)
     \<or> (248 \<le> n \<and> n \<le> 255))"

text \<open>\<^verbatim>\<open>prompt.split()\<close>: the maximal runs of non-whitespace, in order. The first argument
  is the word being read, reversed.\<close>

fun split_acc :: "string \<Rightarrow> string \<Rightarrow> string list" where
  "split_acc cur [] = (if cur = [] then [] else [rev cur])"
| "split_acc cur (c # cs) =
     (if is_space c then (if cur = [] then split_acc [] cs else rev cur # split_acc [] cs)
      else split_acc (c # cur) cs)"

definition split :: "string \<Rightarrow> string list" where
  "split s = split_acc [] s"

text \<open>\<^verbatim>\<open>sub in s\<close> for strings.\<close>

fun startswith :: "string \<Rightarrow> string \<Rightarrow> bool" where
  "startswith s [] = True"
| "startswith [] (k # ks) = False"
| "startswith (c # cs) (k # ks) = (c = k \<and> startswith cs ks)"

fun contains :: "string \<Rightarrow> string \<Rightarrow> bool" where
  "contains [] sub = startswith [] sub"
| "contains (c # cs) sub = (startswith (c # cs) sub \<or> contains cs sub)"

text \<open>\<^verbatim>\<open>prompt.count("?")\<close>.\<close>

definition count_char :: "string \<Rightarrow> char \<Rightarrow> nat" where
  "count_char s c = length (filter (\<lambda>x. x = c) s)"

text \<open>The decimal text of a natural number, as an f-string prints it.\<close>

definition digit_char :: "nat \<Rightarrow> char" where
  "digit_char d = char_of (48 + d)"

function str_of_nat :: "nat \<Rightarrow> string" where
  "str_of_nat n = (if n < 10 then [digit_char n] else str_of_nat (n div 10) @ [digit_char (n mod 10)])"
  by pat_completeness auto
termination
  by (relation "measure id") auto

declare str_of_nat.simps [simp del]

text \<open>\<^verbatim>\<open>sep.join(xs)\<close>.\<close>

fun join :: "string \<Rightarrow> string list \<Rightarrow> string" where
  "join sep [] = []"
| "join sep [x] = x"
| "join sep (x # y # ys) = x @ sep @ join sep (y # ys)"

subsection \<open>The code patterns of \<^verbatim>\<open>_contains_code\<close>\<close>

text \<open>
  The six patterns use only literal characters, the classes \<^verbatim>\<open>\s\<close>, \<^verbatim>\<open>\w\<close> and
  \<^verbatim>\<open>.\<close>, the repetitions \<^verbatim>\<open>+\<close> and \<^verbatim>\<open>*\<close> on a single class, and \<^verbatim>\<open>\b\<close>. A pattern is
  a list of such items. \<^verbatim>\<open>re.search\<close> is called without flags: matching is
  case-sensitive and \<^verbatim>\<open>.\<close> matches every character but the newline.
\<close>

datatype atom = Chr char | Space | Word | Dot

datatype item = One atom | Plus atom | Star atom | Boundary

fun atom_matches :: "atom \<Rightarrow> char \<Rightarrow> bool" where
  "atom_matches (Chr k) c = (c = k)"
| "atom_matches Space c = is_space c"
| "atom_matches Word c = is_word c"
| "atom_matches Dot c = (code_of c \<noteq> 10)"

definition word_before :: "char option \<Rightarrow> bool" where
  "word_before prev = (case prev of None \<Rightarrow> False | Some c \<Rightarrow> is_word c)"

definition word_after :: "string \<Rightarrow> bool" where
  "word_after s = (case s of [] \<Rightarrow> False | c # _ \<Rightarrow> is_word c)"

text \<open>\<open>match_here prev items s\<close>: some prefix of \<open>s\<close> matches the pattern, where \<open>prev\<close> is
  the character before \<open>s\<close> in the text (none at the start of the text).\<close>

fun match_here :: "char option \<Rightarrow> item list \<Rightarrow> string \<Rightarrow> bool" where
  "match_here prev [] s = True"
| "match_here prev (One a # r) [] = False"
| "match_here prev (One a # r) (c # cs) = (atom_matches a c \<and> match_here (Some c) r cs)"
| "match_here prev (Plus a # r) [] = False"
| "match_here prev (Plus a # r) (c # cs) = (atom_matches a c \<and> match_here (Some c) (Star a # r) cs)"
| "match_here prev (Star a # r) [] = match_here prev r []"
| "match_here prev (Star a # r) (c # cs) =
     ((atom_matches a c \<and> match_here (Some c) (Star a # r) cs) \<or> match_here prev r (c # cs))"
| "match_here prev (Boundary # r) s = (word_before prev \<noteq> word_after s \<and> match_here prev r s)"

text \<open>\<^verbatim>\<open>re.search(pattern, text)\<close> as a truth value: a match at some position.\<close>

fun search_from :: "char option \<Rightarrow> item list \<Rightarrow> string \<Rightarrow> bool" where
  "search_from prev items [] = match_here prev items []"
| "search_from prev items (c # cs) = (match_here prev items (c # cs) \<or> search_from (Some c) items cs)"

definition re_search :: "item list \<Rightarrow> string \<Rightarrow> bool" where
  "re_search items text = search_from None items text"

definition lit :: "string \<Rightarrow> item list" where
  "lit s = map (\<lambda>c. One (Chr c)) s"

definition code_indicators :: "item list list" where
  "code_indicators =
    [ lit ''```'',
      lit ''def'' @ [Plus Space, Plus Word, Star Space, One (Chr (CHR ''(''))],
      lit ''function'' @ [Plus Space, Plus Word, Star Space, One (Chr (CHR ''(''))],
      lit ''class'' @ [Plus Space, Plus Word],
      [Boundary] @ lit ''import'' @ [Plus Space, Plus Word],
      lit ''<'' @ [Plus Word] @ lit ''>'' @ [Star Dot] @ lit ''</'' @ [Plus Word] @ lit ''>'' ]"

definition contains_code :: "string \<Rightarrow> bool" where
  "contains_code text = list_ex (\<lambda>pattern. re_search pattern text) code_indicators"

subsection \<open>The classifier\<close>

datatype difficulty = Simple | Medium | Complex

record ClassificationResult =
  difficulty :: difficulty
  confidence :: real
  reasoning :: "string option"

text \<open>The pydantic model declares \<^verbatim>\<open>confidence: float = Field(..., ge=0, le=1)\<close>; lemma
  \<open>classify_confidence_valid\<close> below shows that the classifier always meets it, so building
  the result never raises.\<close>

definition complex_keywords :: "string list" where
  "complex_keywords =
    [''write a'', ''create a'', ''build a'', ''develop'',
     ''analyze'', ''compare'', ''explain why'', ''reason'',
     ''architecture'', ''system design'', ''algorithm'',
     ''debug'', ''refactor'', ''optimize'',
     ''multi-step'', ''chain of thought'', ''reasoning'',
     ''creative writing'', ''story'', ''essay'', ''article'']"

definition simple_keywords :: "string list" where
  "simple_keywords =
    [''summarize'', ''what is'', ''define'', ''list'',
     ''translate'', ''convert'', ''format'',
     ''yes or no'', ''true or false'',
     ''capital of'', ''when was'', ''who is'']"

definition reasoning_patterns :: "string list" where
  "reasoning_patterns = [''explain'', ''why'', ''how does'', ''reasoning'', ''analyze'']"

definition word_count :: "string \<Rightarrow> nat" where
  "word_count prompt = length (split prompt)"

definition matches :: "string list \<Rightarrow> string \<Rightarrow> nat" where
  "matches kws prompt_lower = length (filter (\<lambda>kw. contains prompt_lower kw) kws)"

definition question_marks :: "string \<Rightarrow> nat" where
  "question_marks prompt = count_char prompt (CHR ''?'')"

definition requires_reasoning :: "string \<Rightarrow> bool" where
  "requires_reasoning prompt_lower = list_ex (\<lambda>pattern. contains prompt_lower pattern) reasoning_patterns"

text \<open>The five signals, in the order of the source. Each takes and returns the pair of
  \<^verbatim>\<open>complexity_score\<close> and the \<^verbatim>\<open>reasoning\<close> list (here \<open>reasons\<close>: the name
  \<open>reasoning\<close> is the field of the result).\<close>

type_synonym acc = "real \<times> string list"

definition length_check :: "nat \<Rightarrow> acc \<Rightarrow> acc" where
  "length_check wc a = (case a of (score, reasons) \<Rightarrow>
     if wc < 10 then (score - 0.3, reasons @ [''short prompt ('' @ str_of_nat wc @ '' words)''])
     else if wc > 50 then (score + 0.2, reasons @ [''long prompt ('' @ str_of_nat wc @ '' words)''])
     else (score, reasons))"

definition keyword_matching :: "nat \<Rightarrow> nat \<Rightarrow> acc \<Rightarrow> acc" where
  "keyword_matching complex_matches simple_matches a = (case a of (score, reasons) \<Rightarrow>
     if complex_matches > simple_matches
       then (score + 0.4 * real complex_matches,
             reasons @ [''complex keywords: '' @ str_of_nat complex_matches])
     else if simple_matches > 0
       then (score - 0.3 * real simple_matches,
             reasons @ [''simple keywords: '' @ str_of_nat simple_matches])
     else (score, reasons))"

definition code_detection :: "bool \<Rightarrow> acc \<Rightarrow> acc" where
  "code_detection has_code a = (case a of (score, reasons) \<Rightarrow>
     if has_code then (score + 0.3, reasons @ [''contains code'']) else (score, reasons))"

definition question_complexity :: "nat \<Rightarrow> nat \<Rightarrow> acc \<Rightarrow> acc" where
  "question_complexity qm wc a = (case a of (score, reasons) \<Rightarrow>
     if qm = 1 \<and> wc < 15 then (score - 0.2, reasons @ [''single simple question''])
     else if qm > 2 then (score + 0.2, reasons @ [''multiple questions''])
     else (score, reasons))"

definition reasoning_request :: "bool \<Rightarrow> acc \<Rightarrow> acc" where
  "reasoning_request wants a = (case a of (score, reasons) \<Rightarrow>
     if wants then (score + 0.3, reasons @ [''requires reasoning'']) else (score, reasons))"

definition signals :: "string \<Rightarrow> acc" where
  "signals prompt =
     (let prompt_lower = lower prompt;
          wc = word_count prompt
      in reasoning_request (requires_reasoning prompt_lower)
          (question_complexity (question_marks prompt) wc
            (code_detection (contains_code prompt)
              (keyword_matching (matches complex_keywords prompt_lower)
                                (matches simple_keywords prompt_lower)
                (length_check wc (0, []))))))"

definition complexity_score :: "string \<Rightarrow> real" where
  "complexity_score prompt = fst (signals prompt)"

text \<open>The final decision on the score.\<close>

definition decide :: "real \<Rightarrow> difficulty \<times> real" where
  "decide score =
     (if score < - 0.3 then (Simple, min 0.9 (0.7 + \<bar>score\<bar>))
      else if score > 0.5 then (Complex, min 0.9 (0.65 + score * 0.3))
      else (Medium, 0.6))"

definition classify_rule_based :: "string \<Rightarrow> ClassificationResult" where
  "classify_rule_based prompt =
     (case signals prompt of (score, reasons) \<Rightarrow>
        (case decide score of (d, c) \<Rightarrow>
           \<lparr>difficulty = d, confidence = c, reasoning = Some (join '' | '' reasons)\<rparr>))"

definition classify :: "string \<Rightarrow> ClassificationResult" where
  "classify prompt = classify_rule_based prompt"

subsection \<open>Configuration (\<^verbatim>\<open>app/config.py\<close>)\<close>

text \<open>Of \<^verbatim>\<open>Settings\<close> the router reads the three model names; each comes from the
  environment, with a default.\<close>

record Settings =
  simple_model :: string
  medium_model :: string
  complex_model :: string

definition settings :: Settings where
  "settings = \<lparr>simple_model = ''google/gemini-flash-1.5'',
                medium_model = ''anthropic/claude-3-haiku'',
                complex_model = ''anthropic/claude-3.5-sonnet''\<rparr>"

definition MODEL_COSTS :: "string \<rightharpoonup> real" where
  "MODEL_COSTS = map_of
     [(''google/gemini-flash-1.5'', 0.10 / 1000000),
      (''anthropic/claude-3-haiku'', 1.00 / 1000000),
      (''anthropic/claude-3.5-sonnet'', 3.00 / 1000000)]"

fun DIFFICULTY_TO_MODEL :: "Settings \<Rightarrow> difficulty \<Rightarrow> string" where
  "DIFFICULTY_TO_MODEL st Simple = simple_model st"
| "DIFFICULTY_TO_MODEL st Medium = medium_model st"
| "DIFFICULTY_TO_MODEL st Complex = complex_model st"

fun difficulty_str :: "difficulty \<Rightarrow> string" where
  "difficulty_str Simple = ''simple''"
| "difficulty_str Medium = ''medium''"
| "difficulty_str Complex = ''complex''"

subsection \<open>Python values: exceptions, \<^verbatim>\<open>repr\<close>, \<^verbatim>\<open>round\<close>\<close>

datatype key_error = KeyError string

datatype type_error = TypeError

definition hex_digit :: "nat \<Rightarrow> char" where
  "hex_digit d = (if d < 10 then char_of (48 + d) else char_of (87 + d))"

definition printable :: "char \<Rightarrow> bool" where
  "printable c = (let n = code_of c in
     \<not> (n < 32 \<or> n = 127 \<or> (128 \<le> n \<and> n \<le> 160) \<or> n = 173))"

definition repr_char :: "char \<Rightarrow> char \<Rightarrow> string" where
  "repr_char quote c =
     (if c = quote \<or> c = CHR 0x5C then [CHR 0x5C, c]
      else if c = CHR 0x09 then [CHR 0x5C, CHR ''t'']
      else if c = CHR 0x0A then [CHR 0x5C, CHR ''n'']
      else if c = CHR 0x0D then [CHR 0x5C, CHR ''r'']
      else if \<not> printable c
        then [CHR 0x5C, CHR ''x'', hex_digit (code_of c div 16), hex_digit (code_of c mod 16)]
      else [c])"

text \<open>\<^verbatim>\<open>repr(s)\<close> of a string: double quotes only when \<open>s\<close> has a single quote and no
  double quote.\<close>

definition py_repr :: "string \<Rightarrow> string" where
  "py_repr s =
     (let quote = (if CHR 0x27 \<in> set s \<and> CHR 0x22 \<notin> set s then CHR 0x22 else CHR 0x27)
      in [quote] @ concat (map (repr_char quote) s) @ [quote])"

text \<open>\<^verbatim>\<open>str(e)\<close>: a \<^verbatim>\<open>KeyError\<close> prints the \<^verbatim>\<open>repr\<close> of its key.\<close>

fun exception_str :: "key_error \<Rightarrow> string" where
  "exception_str (KeyError k) = py_repr k"

text \<open>\<^verbatim>\<open>round(x, ndigits)\<close>: to the nearest multiple of \<open>10^-ndigits\<close>, a tie to the even
  one.\<close>

definition round_half_even :: "real \<Rightarrow> int" where
  "round_half_even x =
     (let f = \<lfloor>x\<rfloor>; d = x - of_int f
      in if d < 1 / 2 then f else if d > 1 / 2 then f + 1 else if even f then f else f + 1)"

definition py_round :: "real \<Rightarrow> nat \<Rightarrow> real" where
  "py_round x ndigits = of_int (round_half_even (x * 10 ^ ndigits)) / 10 ^ ndigits"

subsection \<open>Data (\<^verbatim>\<open>app/models.py\<close>, \<^verbatim>\<open>app/database.py\<close>)\<close>

text \<open>Several classes share field names (\<^verbatim>\<open>response\<close>, \<^verbatim>\<open>status\<close>, \<^verbatim>\<open>latency_ms\<close>, ...), so
  each record's fields carry a prefix: \<open>req_\<close> \<^verbatim>\<open>PromptRequest\<close>, \<open>rd_\<close> the dictionary a
  client returns, \<open>log_\<close> \<^verbatim>\<open>RequestLog\<close>, \<open>ms_\<close> \<^verbatim>\<open>ModelStats\<close>, \<open>rr_\<close> \<^verbatim>\<open>RouterResponse\<close>,
  \<open>sr_\<close> \<^verbatim>\<open>StatsResponse\<close>, \<open>mb_\<close> an entry of \<^verbatim>\<open>model_breakdown\<close>. A column that may hold
  \<^verbatim>\<open>None\<close> is an option. Times are natural numbers.\<close>

record PromptRequest =
  req_prompt :: string
  req_user_id :: "string option"
  req_max_tokens :: "int option"
  req_temperature :: "real option"

record response_data =
  rd_response :: string
  rd_tokens_used :: int
  rd_latency_ms :: real
  rd_status :: string

record RequestLog =
  log_id :: nat
  log_timestamp :: nat
  log_prompt :: string
  log_prompt_tokens :: "int option"
  log_difficulty :: string
  log_confidence :: real
  log_selected_model :: string
  log_response :: string
  log_response_tokens :: "int option"
  log_latency_ms :: "real option"
  log_cost_usd :: "real option"
  log_cost_saved_usd :: "real option"
  log_user_id :: "string option"
  log_status :: string

text \<open>\<^verbatim>\<open>ModelStats\<close>: the code writes all four counters whenever it creates or updates a
  row, and only ever sets \<^verbatim>\<open>total_requests\<close> to 1 or adds 1 to it: a natural number.\<close>

record ModelStats =
  ms_id :: nat
  ms_model_name :: string
  ms_total_requests :: nat
  ms_total_tokens :: int
  ms_total_cost_usd :: real
  ms_avg_latency_ms :: real
  ms_last_updated :: nat

record RouterResponse =
  rr_response :: string
  rr_model_used :: string
  rr_difficulty :: string
  rr_classification_confidence :: real
  rr_tokens_used :: int
  rr_cost_usd :: real
  rr_cost_saved_usd :: real
  rr_latency_ms :: real
  rr_request_id :: nat

record breakdown =
  mb_requests :: nat
  mb_total_tokens :: int
  mb_total_cost_usd :: real
  mb_avg_latency_ms :: real

record StatsResponse =
  sr_total_requests :: nat
  sr_total_cost_usd :: real
  sr_total_saved_usd :: real
  sr_model_breakdown :: "string \<rightharpoonup> breakdown"
  sr_avg_latency_ms :: real

datatype HTTPException = HTTPException (status_code: nat) (detail: string)

text \<open>The database session: the two tables, rows in insertion order. A new row gets the
  next integer key, one more than the largest in use.\<close>

record db =
  request_logs :: "RequestLog list"
  model_stats :: "ModelStats list"

definition next_id :: "nat list \<Rightarrow> nat" where
  "next_id ids = Suc (fold max ids 0)"

definition add_log :: "(nat \<Rightarrow> RequestLog) \<Rightarrow> db \<Rightarrow> db" where
  "add_log row d =
     d\<lparr>request_logs := request_logs d @ [row (next_id (map log_id (request_logs d)))]\<rparr>"

text \<open>\<^verbatim>\<open>init_db\<close>: \<^verbatim>\<open>create_all\<close> makes the tables that do not exist yet and leaves
  existing rows alone.\<close>

definition init_db :: "db option \<Rightarrow> db" where
  "init_db store = (case store of None \<Rightarrow> \<lparr>request_logs = [], model_stats = []\<rparr> | Some d \<Rightarrow> d)"

subsection \<open>The endpoints (\<^verbatim>\<open>app/main.py\<close>)\<close>

text \<open>\<^verbatim>\<open>startup_event\<close> initialises the database and prints two lines, the second with the
  three model names. It reads nothing else of the configuration and has no way to fail.\<close>

definition startup_event :: "Settings \<Rightarrow> db option \<Rightarrow> db" where
  "startup_event st store = init_db store"

text \<open>A model client is the network: given the model name, the prompt and the two
  parameters it returns its dictionary. Both clients catch every exception and return
  \<^verbatim>\<open>status\<close> \<^verbatim>\<open>"error"\<close> with the message as \<^verbatim>\<open>response\<close>.\<close>

type_synonym client = "string \<Rightarrow> string \<Rightarrow> int option \<Rightarrow> real option \<Rightarrow> response_data"

definition route_and_generate ::
    "Settings \<Rightarrow> client \<Rightarrow> difficulty \<Rightarrow> string \<Rightarrow> int option \<Rightarrow> real option
      \<Rightarrow> response_data \<times> string" where
  "route_and_generate st client d prompt max_tokens temperature =
     (let model_name = DIFFICULTY_TO_MODEL st d
      in (client model_name prompt max_tokens temperature, model_name))"

text \<open>Step 3 of \<^verbatim>\<open>generate\<close>: the two look-ups in the price table, each a \<^verbatim>\<open>KeyError\<close> when
  the key is missing, and the two costs.\<close>

definition calculate_costs :: "(string \<rightharpoonup> real) \<Rightarrow> string \<Rightarrow> int \<Rightarrow> key_error + real \<times> real" where
  "calculate_costs costs model_used tokens_used =
     (case costs model_used of
        None \<Rightarrow> Inl (KeyError model_used)
      | Some cost_per_token \<Rightarrow>
          (let actual_cost = real_of_int tokens_used * cost_per_token
           in case costs ''gpt-4o'' of
                None \<Rightarrow> Inl (KeyError ''gpt-4o'')
              | Some gpt4o_price \<Rightarrow>
                  (let gpt4o_cost = real_of_int tokens_used * gpt4o_price
                   in Inr (actual_cost, gpt4o_cost - actual_cost))))"

text \<open>The update of the per-model statistics: the first row of that model is changed in
  place, or a row is created. The count and the tokens are integers. The cost and the
  average latency are floats: the code rounds after each of the multiplication, the
  addition and the division of the recurrence, and the exact value written here is the
  stored one up to that rounding only. No property below is about the value of the
  average.\<close>

definition bump :: "int \<Rightarrow> real \<Rightarrow> real \<Rightarrow> ModelStats \<Rightarrow> ModelStats" where
  "bump tokens_used actual_cost total_latency model_stat =
     (let n = ms_total_requests model_stat + 1
      in model_stat
          \<lparr>ms_total_requests := n,
           ms_total_tokens := ms_total_tokens model_stat + tokens_used,
           ms_total_cost_usd := ms_total_cost_usd model_stat + actual_cost,
           ms_avg_latency_ms :=
             (ms_avg_latency_ms model_stat * real (n - 1) + total_latency) / real n\<rparr>)"

fun update_first :: "('a \<Rightarrow> bool) \<Rightarrow> ('a \<Rightarrow> 'a) \<Rightarrow> 'a list \<Rightarrow> 'a list" where
  "update_first P f [] = []"
| "update_first P f (x # xs) = (if P x then f x # xs else x # update_first P f xs)"

definition update_model_stats ::
    "ModelStats list \<Rightarrow> string \<Rightarrow> int \<Rightarrow> real \<Rightarrow> real \<Rightarrow> nat \<Rightarrow> ModelStats list" where
  "update_model_stats stats model_used tokens_used actual_cost total_latency now =
     (case find (\<lambda>s. ms_model_name s = model_used) stats of
        Some model_stat \<Rightarrow>
          update_first (\<lambda>s. ms_model_name s = model_used)
            (bump tokens_used actual_cost total_latency) stats
      | None \<Rightarrow>
          stats @ [\<lparr>ms_id = next_id (map ms_id stats), ms_model_name = model_used,
                    ms_total_requests = 1, ms_total_tokens = tokens_used,
                    ms_total_cost_usd = actual_cost, ms_avg_latency_ms = total_latency,
                    ms_last_updated = now\<rparr>])"

text \<open>The outcome of the backend call that \<^verbatim>\<open>generate\<close> makes for a request.\<close>

definition backend_outcome :: "Settings \<Rightarrow> client \<Rightarrow> PromptRequest \<Rightarrow> response_data" where
  "backend_outcome st client request =
     fst (route_and_generate st client (difficulty (classify (req_prompt request)))
            (req_prompt request) (req_max_tokens request) (req_temperature request))"

definition model_for :: "Settings \<Rightarrow> PromptRequest \<Rightarrow> string" where
  "model_for st request = DIFFICULTY_TO_MODEL st (difficulty (classify (req_prompt request)))"

definition error_log :: "PromptRequest \<Rightarrow> key_error \<Rightarrow> nat \<Rightarrow> nat \<Rightarrow> RequestLog" where
  "error_log request e now i =
     \<lparr>log_id = i, log_timestamp = now, log_prompt = req_prompt request,
      log_prompt_tokens = None, log_difficulty = ''unknown'', log_confidence = 0,
      log_selected_model = ''error'', log_response = ''Error: '' @ exception_str e,
      log_response_tokens = None, log_latency_ms = None, log_cost_usd = None,
      log_cost_saved_usd = None, log_user_id = req_user_id request, log_status = ''error''\<rparr>"

text \<open>
  \<^verbatim>\<open>generate\<close>. The request has passed the validation of \<^verbatim>\<open>PromptRequest\<close>, which the
  framework runs before the handler. Beyond the request and the session the handler depends
  on the price table, the settings, the client, the elapsed time \<open>total_latency\<close> in
  milliseconds and the clock \<open>now\<close>. The result is the \<^verbatim>\<open>HTTPException\<close> raised or the response returned, with the
  database as committed. An \<^verbatim>\<open>HTTPException\<close> raised inside the \<^verbatim>\<open>try\<close> is re-raised as
  it is by \<^verbatim>\<open>except HTTPException: raise\<close>; any other exception is logged and turned
  into a 500.
\<close>

definition generate ::
    "(string \<rightharpoonup> real) \<Rightarrow> Settings \<Rightarrow> client \<Rightarrow> real \<Rightarrow> nat \<Rightarrow> PromptRequest \<Rightarrow> db
      \<Rightarrow> (HTTPException + RouterResponse) \<times> db" where
  "generate costs st client total_latency now request d =
     (let classification = classify (req_prompt request)
      in case route_and_generate st client (difficulty classification) (req_prompt request)
                (req_max_tokens request) (req_temperature request) of
        (rd, model_used) \<Rightarrow>
          if rd_status rd = ''error'' then (Inl (HTTPException 500 (rd_response rd)), d)
          else
            (let tokens_used = rd_tokens_used rd
             in case calculate_costs costs model_used tokens_used of
               Inl e \<Rightarrow>
                 (Inl (HTTPException 500 (''Internal error: '' @ exception_str e)),
                  add_log (error_log request e now) d)
             | Inr (actual_cost, cost_saved) \<Rightarrow>
                 (let request_id = next_id (map log_id (request_logs d));
                      log_entry =
                        \<lparr>log_id = request_id, log_timestamp = now,
                         log_prompt = req_prompt request,
                         log_prompt_tokens = Some tokens_used,
                         log_difficulty = difficulty_str (difficulty classification),
                         log_confidence = confidence classification,
                         log_selected_model = model_used,
                         log_response = rd_response rd,
                         log_response_tokens = Some tokens_used,
                         log_latency_ms = Some total_latency,
                         log_cost_usd = Some actual_cost,
                         log_cost_saved_usd = Some cost_saved,
                         log_user_id = req_user_id request,
                         log_status = ''success''\<rparr>;
                      d' = \<lparr>request_logs = request_logs d @ [log_entry],
                            model_stats = update_model_stats (model_stats d) model_used
                                            tokens_used actual_cost total_latency now\<rparr>
                  in (Inr \<lparr>rr_response = rd_response rd,
                           rr_model_used = model_used,
                           rr_difficulty = difficulty_str (difficulty classification),
                           rr_classification_confidence = confidence classification,
                           rr_tokens_used = tokens_used,
                           rr_cost_usd = py_round actual_cost 6,
                           rr_cost_saved_usd = py_round cost_saved 6,
                           rr_latency_ms = py_round total_latency 2,
                           rr_request_id = request_id\<rparr>, d'))))"

text \<open>\<^verbatim>\<open>sum(...)\<close> over a column that may hold \<^verbatim>\<open>None\<close>: adding \<^verbatim>\<open>None\<close> is a \<^verbatim>\<open>TypeError\<close>.\<close>

fun py_sum :: "real option list \<Rightarrow> type_error + real" where
  "py_sum [] = Inr 0"
| "py_sum (None # xs) = Inl TypeError"
| "py_sum (Some x # xs) = (case py_sum xs of Inl e \<Rightarrow> Inl e | Inr t \<Rightarrow> Inr (x + t))"

definition breakdown_of :: "ModelStats \<Rightarrow> breakdown" where
  "breakdown_of stat =
     \<lparr>mb_requests = ms_total_requests stat, mb_total_tokens = ms_total_tokens stat,
      mb_total_cost_usd = py_round (ms_total_cost_usd stat) 4,
      mb_avg_latency_ms = py_round (ms_avg_latency_ms stat) 2\<rparr>"

definition get_stats :: "db \<Rightarrow> type_error + StatsResponse" where
  "get_stats d =
     (let logs = filter (\<lambda>l. log_status l = ''success'') (request_logs d)
      in if logs = []
         then Inr \<lparr>sr_total_requests = 0, sr_total_cost_usd = 0, sr_total_saved_usd = 0,
                   sr_model_breakdown = Map.empty, sr_avg_latency_ms = 0\<rparr>
         else
           (case py_sum (map log_cost_usd logs) of Inl e \<Rightarrow> Inl e | Inr total_cost \<Rightarrow>
            case py_sum (map log_cost_saved_usd logs) of Inl e \<Rightarrow> Inl e | Inr total_saved \<Rightarrow>
            case py_sum (map log_latency_ms logs) of Inl e \<Rightarrow> Inl e | Inr latency_sum \<Rightarrow>
              Inr \<lparr>sr_total_requests = length logs,
                   sr_total_cost_usd = py_round total_cost 4,
                   sr_total_saved_usd = py_round total_saved 4,
                   sr_model_breakdown =
                     fold (\<lambda>stat m. m(ms_model_name stat \<mapsto> breakdown_of stat))
                       (model_stats d) Map.empty,
                   sr_avg_latency_ms = py_round (latency_sum / real (length logs)) 2\<rparr>))"

section \<open>Properties of the classifier\<close>

subsection \<open>Auxiliary facts\<close>

lemma decide_confidence_valid: "0 \<le> snd (decide s) \<and> snd (decide s) \<le> 1"
  by (auto simp: decide_def min_def)

lemma decide_simple: "fst (decide s) = Simple \<Longrightarrow> snd (decide s) = 0.9"
  by (auto simp: decide_def split: if_splits)

lemma classify_decide:
  "classify p = \<lparr>difficulty = fst (decide (complexity_score p)),
      confidence = snd (decide (complexity_score p)),
      reasoning = Some (join '' | '' (snd (signals p)))\<rparr>"
  by (simp add: classify_def classify_rule_based_def complexity_score_def split: prod.splits)

lemma classify_confidence_valid: "0 \<le> confidence (classify p) \<and> confidence (classify p) \<le> 1"
  unfolding classify_decide using decide_confidence_valid [of "complexity_score p"] by simp

lemma code_of_lower_char:
  "code_of (lower_char c) = (if is_upper c then code_of c + 32 else code_of c)"
  by (auto simp: lower_char_def is_upper_def code_of_def Let_def)

lemma is_space_lower_char: "is_space (lower_char c) = is_space c"
  unfolding is_space_def code_of_lower_char Let_def
  by (auto simp: is_upper_def Let_def)

lemma lower_char_question_mark: "(lower_char c = CHR ''?'') = (c = CHR ''?'')"
proof -
  have q: "code_of (CHR ''?'') = 63" by (simp add: code_of_def)
  have inj: "\<And>a b. (a = b) = (code_of a = code_of b)" by (auto simp: code_of_def)
  show ?thesis
    unfolding inj code_of_lower_char q by (auto simp: is_upper_def Let_def)
qed

lemma split_acc_lower:
  "length (split_acc (map lower_char cur) (map lower_char s)) = length (split_acc cur s)"
proof (induction s arbitrary: cur)
  case Nil
  show ?case by simp
next
  case (Cons c cs)
  have a: "length (split_acc [] (map lower_char cs)) = length (split_acc [] cs)"
    using Cons.IH [of "[]"] by simp
  have b: "length (split_acc (lower_char c # map lower_char cur) (map lower_char cs)) =
           length (split_acc (c # cur) cs)"
    using Cons.IH [of "c # cur"] by simp
  show ?case by (simp add: is_space_lower_char a b)
qed

lemma word_count_lower: "word_count (lower p) = word_count p"
  using split_acc_lower [of "[]" p] by (simp add: word_count_def split_def lower_def)

lemma question_marks_lower: "question_marks (lower p) = question_marks p"
  unfolding question_marks_def count_char_def lower_def
  by (induction p) (auto simp: lower_char_question_mark)

subsection \<open>The decision on the score\<close>

text \<open>
  C3. For every prompt, tier and confidence are determined by the final score \<open>S\<close>:
  below \<open>-0.3\<close> simple with confidence \<open>min 0.9 (0.7 + |S|)\<close>, above \<open>0.5\<close> complex with
  confidence \<open>min 0.9 (0.65 + 0.3 S)\<close>, otherwise medium with confidence \<open>0.6\<close>. Hence the
  confidence is \<open>0.6\<close> for medium and within \<open>[0, 0.9]\<close> for the other two tiers.
\<close>

theorem classify_determined_by_score:
  "(if complexity_score p < - 0.3
      then difficulty (classify p) = Simple \<and>
           confidence (classify p) = min 0.9 (0.7 + \<bar>complexity_score p\<bar>)
    else if complexity_score p > 0.5
      then difficulty (classify p) = Complex \<and>
           confidence (classify p) = min 0.9 (0.65 + 0.3 * complexity_score p)
    else difficulty (classify p) = Medium \<and> confidence (classify p) = 0.6) \<and>
   (if difficulty (classify p) = Medium then confidence (classify p) = 0.6
    else 0 \<le> confidence (classify p) \<and> confidence (classify p) \<le> 0.9)"
  unfolding classify_decide by (auto simp: decide_def min_def)

text \<open>
  C9. Whenever the classifier returns the tier simple, the confidence is exactly \<open>0.9\<close>:
  the score is below \<open>-0.3\<close>, so \<open>0.7 + |S|\<close> is above \<open>0.9\<close> and the clamp applies.
\<close>

theorem simple_confidence_is_clamped:
  "difficulty (classify p) = Simple \<Longrightarrow> confidence (classify p) = 0.9"
  unfolding classify_decide using decide_simple [of "complexity_score p"] by simp

text \<open>C9 at the prompt \<^verbatim>\<open>What is the capital of France?\<close>, which is simple.\<close>

theorem simple_confidence_is_clamped_witness:
  "difficulty (classify ''What is the capital of France?'') = Simple \<and>
   confidence (classify ''What is the capital of France?'') = 0.9"
proof -
  have h: "difficulty (classify ''What is the capital of France?'') = Simple"
    by code_simp
  from simple_confidence_is_clamped [OF h] h show ?thesis by simp
qed

subsection \<open>Short prompts without any other signal\<close>

text \<open>
  C4 as stated fails: a prompt of fewer than ten words with no keyword, code, question or
  reasoning signal has the score \<open>-0.3\<close> exactly, and the simple tier needs a score
  strictly below \<open>-0.3\<close>. At the prompt \<^verbatim>\<open>hello\<close> the classifier returns medium with
  confidence \<open>0.6\<close>.
\<close>

theorem short_plain_prompt_counterexample:
  "word_count ''hello'' < 10 \<and>
   matches complex_keywords (lower ''hello'') = 0 \<and>
   matches simple_keywords (lower ''hello'') = 0 \<and>
   \<not> contains_code ''hello'' \<and>
   question_marks ''hello'' = 0 \<and>
   \<not> requires_reasoning (lower ''hello'') \<and>
   classify ''hello'' =
     \<lparr>difficulty = Medium, confidence = 0.6, reasoning = Some ''short prompt (1 words)''\<rparr>"
  by code_simp

text \<open>
  C4, amended. For every prompt with fewer than ten words on which no keyword, code,
  question-form or reasoning signal fires, the classifier returns medium with confidence
  exactly \<open>0.6\<close>, and the rationale is the short-prompt fragment alone.
\<close>

theorem short_plain_prompt_is_medium:
  assumes "word_count p < 10"
    and "matches complex_keywords (lower p) = 0"
    and "matches simple_keywords (lower p) = 0"
    and "\<not> contains_code p"
    and "question_marks p \<noteq> 1" and "\<not> question_marks p > 2"
    and "\<not> requires_reasoning (lower p)"
  shows "classify p = \<lparr>difficulty = Medium, confidence = 0.6,
           reasoning = Some (''short prompt ('' @ str_of_nat (word_count p) @ '' words)'')\<rparr>"
proof -
  have "signals p = (- 0.3, [''short prompt ('' @ str_of_nat (word_count p) @ '' words)''])"
    using assms
    by (simp add: signals_def length_check_def keyword_matching_def code_detection_def
        question_complexity_def reasoning_request_def)
  then show ?thesis
    by (simp add: classify_def classify_rule_based_def decide_def)
qed

text \<open>C4, amended, at the prompt \<^verbatim>\<open>Good morning everyone\<close>.\<close>

theorem short_plain_prompt_is_medium_witness:
  "word_count ''Good morning everyone'' < 10 \<and>
   matches complex_keywords (lower ''Good morning everyone'') = 0 \<and>
   matches simple_keywords (lower ''Good morning everyone'') = 0 \<and>
   \<not> contains_code ''Good morning everyone'' \<and>
   question_marks ''Good morning everyone'' \<noteq> 1 \<and>
   \<not> question_marks ''Good morning everyone'' > 2 \<and>
   \<not> requires_reasoning (lower ''Good morning everyone'') \<and>
   classify ''Good morning everyone'' =
     \<lparr>difficulty = Medium, confidence = 0.6,
      reasoning = Some (''short prompt ('' @ str_of_nat (word_count ''Good morning everyone'')
                         @ '' words)'')\<rparr>"
proof -
  have h1: "word_count ''Good morning everyone'' < 10" by code_simp
  have h2: "matches complex_keywords (lower ''Good morning everyone'') = 0" by code_simp
  have h3: "matches simple_keywords (lower ''Good morning everyone'') = 0" by code_simp
  have h4: "\<not> contains_code ''Good morning everyone''" by code_simp
  have h5: "question_marks ''Good morning everyone'' \<noteq> 1" by code_simp
  have h6: "\<not> question_marks ''Good morning everyone'' > 2" by code_simp
  have h7: "\<not> requires_reasoning (lower ''Good morning everyone'')" by code_simp
  from short_plain_prompt_is_medium [OF h1 h2 h3 h4 h5 h6 h7] h1 h2 h3 h4 h5 h6 h7
  show ?thesis by blast
qed

subsection \<open>The REST API example\<close>

text \<open>
  C5 as stated fails: for \<^verbatim>\<open>Write a complete REST API with authentication\<close> the classifier
  does not return complex.
\<close>

theorem rest_api_prompt_counterexample:
  "difficulty (classify ''Write a complete REST API with authentication'') \<noteq> Complex"
  by code_simp

text \<open>
  C5, amended. For \<^verbatim>\<open>Write a complete REST API with authentication\<close> the classifier
  returns medium with confidence \<open>0.6\<close>: seven words give \<open>-0.3\<close>, the one complex
  keyword \<^verbatim>\<open>write a\<close> gives \<open>+0.4\<close>, and the score \<open>0.1\<close> is not above \<open>0.5\<close>.
\<close>

theorem rest_api_prompt_is_medium:
  "complexity_score ''Write a complete REST API with authentication'' = 0.1 \<and>
   classify ''Write a complete REST API with authentication'' =
     \<lparr>difficulty = Medium, confidence = 0.6,
      reasoning = Some ''short prompt (7 words) | complex keywords: 1''\<rparr>"
  by code_simp

subsection \<open>Letter case\<close>

text \<open>
  C8 as stated fails: the code patterns are searched in the prompt as given, without
  \<^verbatim>\<open>re.IGNORECASE\<close>. \<^verbatim>\<open>analyze class Foo\<close> and \<^verbatim>\<open>ANALYZE CLASS FOO\<close> differ in letter case
  only; the code signal fires on the first alone, which is complex while the second is
  medium.
\<close>

theorem case_change_counterexample:
  "lower ''ANALYZE CLASS FOO'' = lower ''analyze class Foo'' \<and>
   contains_code ''analyze class Foo'' \<and>
   \<not> contains_code ''ANALYZE CLASS FOO'' \<and>
   difficulty (classify ''analyze class Foo'') = Complex \<and>
   difficulty (classify ''ANALYZE CLASS FOO'') = Medium"
  by code_simp

text \<open>
  C8, amended. The keyword and reasoning-indicator matches are case-insensitive, and the
  word count and the number of question marks do not depend on letter case; the code
  patterns are matched case-sensitively. So two prompts that differ in letter case only
  have the same keyword counts and reasoning signal, and the same classification result
  whenever the code signal fires on both or on neither.
\<close>

theorem case_change_invariance:
  assumes "lower p = lower q"
  shows "matches complex_keywords (lower p) = matches complex_keywords (lower q) \<and>
         matches simple_keywords (lower p) = matches simple_keywords (lower q) \<and>
         requires_reasoning (lower p) = requires_reasoning (lower q) \<and>
         (contains_code p = contains_code q \<longrightarrow> classify p = classify q)"
proof -
  have w: "word_count p = word_count q"
    using word_count_lower [of p] word_count_lower [of q] assms by simp
  have m: "question_marks p = question_marks q"
    using question_marks_lower [of p] question_marks_lower [of q] assms by simp
  have "contains_code p = contains_code q \<Longrightarrow> signals p = signals q"
    unfolding signals_def by (simp add: w m assms)
  then show ?thesis by (simp add: classify_def classify_rule_based_def assms)
qed

text \<open>C8, amended, at \<^verbatim>\<open>What is the Capital of France?\<close> and its upper-case form.\<close>

theorem case_change_invariance_witness:
  "lower ''What is the Capital of France?'' = lower ''WHAT IS THE CAPITAL OF FRANCE?'' \<and>
   contains_code ''What is the Capital of France?'' =
     contains_code ''WHAT IS THE CAPITAL OF FRANCE?'' \<and>
   classify ''What is the Capital of France?'' = classify ''WHAT IS THE CAPITAL OF FRANCE?''"
proof -
  have h: "lower ''What is the Capital of France?'' = lower ''WHAT IS THE CAPITAL OF FRANCE?''"
    by code_simp
  have c: "contains_code ''What is the Capital of France?'' =
           contains_code ''WHAT IS THE CAPITAL OF FRANCE?''"
    by code_simp
  from case_change_invariance [OF h] h c show ?thesis by blast
qed

section \<open>Properties of the endpoints\<close>

subsection \<open>Auxiliary facts\<close>

lemma generate_key_error:
  assumes "rd_status (backend_outcome st client request) \<noteq> ''error''"
    and "calculate_costs costs (model_for st request)
           (rd_tokens_used (backend_outcome st client request)) = Inl e"
  shows "generate costs st client total_latency now request d =
           (Inl (HTTPException 500 (''Internal error: '' @ exception_str e)),
            add_log (error_log request e now) d)"
  using assms
  by (simp add: generate_def backend_outcome_def model_for_def route_and_generate_def Let_def)

lemma MODEL_COSTS_gpt4o: "MODEL_COSTS ''gpt-4o'' = None"
  by (simp add: MODEL_COSTS_def)

lemma calculate_costs_missing:
  assumes "costs m = None \<or> costs ''gpt-4o'' = None"
  shows "calculate_costs costs m t = Inl (KeyError (if costs m = None then m else ''gpt-4o''))"
  using assms by (auto simp: calculate_costs_def Let_def split: option.splits)

lemma settings_priced: "MODEL_COSTS (DIFFICULTY_TO_MODEL settings dd) \<noteq> None"
  by (cases dd) (simp_all add: MODEL_COSTS_def settings_def)

lemma generate_cost_saved:
  assumes "rd_status (backend_outcome st client request) \<noteq> ''error''"
    and "costs (model_for st request) = Some u" and "costs ''gpt-4o'' = Some b"
  shows "\<exists>r. fst (generate costs st client total_latency now request d) = Inr r \<and>
           rr_cost_saved_usd r =
             py_round (real_of_int (rd_tokens_used (backend_outcome st client request)) * b
                       - real_of_int (rd_tokens_used (backend_outcome st client request)) * u) 6"
  using assms
  by (simp add: generate_def backend_outcome_def model_for_def route_and_generate_def Let_def
      calculate_costs_def)

subsection \<open>Cost and savings\<close>

text \<open>
  C1: for every successful generation outcome \<^verbatim>\<open>generate\<close> should return
  \<open>cost_saved_usd = tokens_used * (baseline price - used price)\<close>. With a price table that
  holds the model used and the baseline key \<^verbatim>\<open>gpt-4o\<close> it returns the rounded difference
  of the two products (lemma \<open>generate_cost_saved\<close>). The table of \<^verbatim>\<open>app/config.py\<close> has no entry \<^verbatim>\<open>gpt-4o\<close>, so with
  the default settings every backend outcome other than an error raises
  \<^verbatim>\<open>KeyError('gpt-4o')\<close> at the line "Cost if we always used GPT-4o": the caller gets a
  500, an error row is logged and no saving is computed or returned.
\<close>

theorem successful_generation_raises_KeyError:
  assumes "rd_status (backend_outcome settings client request) \<noteq> ''error''"
  shows "generate MODEL_COSTS settings client total_latency now request d =
           (Inl (HTTPException 500 (''Internal error: '' @ py_repr ''gpt-4o'')),
            add_log (error_log request (KeyError ''gpt-4o'') now) d)"
proof -
  have "calculate_costs MODEL_COSTS (model_for settings request)
          (rd_tokens_used (backend_outcome settings client request)) = Inl (KeyError ''gpt-4o'')"
    using calculate_costs_missing [of MODEL_COSTS "model_for settings request"]
      settings_priced [of "difficulty (classify (req_prompt request))"] MODEL_COSTS_gpt4o
    by (simp add: model_for_def)
  from generate_key_error [OF assms this] show ?thesis by simp
qed

text \<open>C1 at a request \<^verbatim>\<open>hello\<close> that the backend answers with 100 tokens.\<close>

theorem successful_generation_raises_KeyError_witness:
  "rd_status (backend_outcome settings
      (\<lambda>model prompt max_tokens temperature.
         \<lparr>rd_response = ''Hi!'', rd_tokens_used = 100, rd_latency_ms = 850, rd_status = ''success''\<rparr>)
      \<lparr>req_prompt = ''hello'', req_user_id = None, req_max_tokens = Some 1000,
       req_temperature = Some 0.7\<rparr>) \<noteq> ''error'' \<and>
   generate MODEL_COSTS settings
      (\<lambda>model prompt max_tokens temperature.
         \<lparr>rd_response = ''Hi!'', rd_tokens_used = 100, rd_latency_ms = 850, rd_status = ''success''\<rparr>)
      900 0
      \<lparr>req_prompt = ''hello'', req_user_id = None, req_max_tokens = Some 1000,
       req_temperature = Some 0.7\<rparr>
      \<lparr>request_logs = [], model_stats = []\<rparr> =
     (Inl (HTTPException 500 (''Internal error: '' @ [CHR 0x27] @ ''gpt-4o'' @ [CHR 0x27])),
      \<lparr>request_logs =
         [\<lparr>log_id = 1, log_timestamp = 0, log_prompt = ''hello'', log_prompt_tokens = None,
           log_difficulty = ''unknown'', log_confidence = 0, log_selected_model = ''error'',
           log_response = ''Error: '' @ [CHR 0x27] @ ''gpt-4o'' @ [CHR 0x27],
           log_response_tokens = None, log_latency_ms = None, log_cost_usd = None,
           log_cost_saved_usd = None, log_user_id = None, log_status = ''error''\<rparr>],
       model_stats = []\<rparr>)"
proof -
  have h: "rd_status (backend_outcome settings
      (\<lambda>model prompt max_tokens temperature.
         \<lparr>rd_response = ''Hi!'', rd_tokens_used = 100, rd_latency_ms = 850, rd_status = ''success''\<rparr>)
      \<lparr>req_prompt = ''hello'', req_user_id = None, req_max_tokens = Some 1000,
       req_temperature = Some 0.7\<rparr>) \<noteq> ''error''"
    by (simp add: backend_outcome_def route_and_generate_def Let_def)
  have r: "py_repr ''gpt-4o'' = [CHR 0x27] @ ''gpt-4o'' @ [CHR 0x27]" by code_simp
  from successful_generation_raises_KeyError [OF h, of 900 0 "\<lparr>request_logs = [], model_stats = []\<rparr>"] h
  show ?thesis
    by (simp add: r add_log_def error_log_def next_id_def)
qed

subsection \<open>Backend errors\<close>

text \<open>
  C2: for a request whose backend call returns status \<^verbatim>\<open>error\<close> an error row should be
  persisted before the failure is surfaced. The code raises \<^verbatim>\<open>HTTPException(500)\<close> with the
  backend's message, and \<^verbatim>\<open>except HTTPException: raise\<close> passes it on before the logging
  handler: the caller sees the failure, and the database is left as it was, with no row
  for the attempt.
\<close>

theorem backend_error_is_not_logged:
  assumes "rd_status (backend_outcome st client request) = ''error''"
  shows "generate costs st client total_latency now request d =
           (Inl (HTTPException 500 (rd_response (backend_outcome st client request))), d)"
  using assms
  by (simp add: generate_def backend_outcome_def route_and_generate_def Let_def)

text \<open>C2 at a request whose backend call fails with a connection error.\<close>

theorem backend_error_is_not_logged_witness:
  "rd_status (backend_outcome settings
      (\<lambda>model prompt max_tokens temperature.
         \<lparr>rd_response = ''Error: Connection error.'', rd_tokens_used = 0, rd_latency_ms = 31,
          rd_status = ''error''\<rparr>)
      \<lparr>req_prompt = ''Summarize this in 3 sentences'', req_user_id = Some ''u1'',
       req_max_tokens = Some 1000, req_temperature = Some 0.7\<rparr>) = ''error'' \<and>
   generate MODEL_COSTS settings
      (\<lambda>model prompt max_tokens temperature.
         \<lparr>rd_response = ''Error: Connection error.'', rd_tokens_used = 0, rd_latency_ms = 31,
          rd_status = ''error''\<rparr>)
      35 0
      \<lparr>req_prompt = ''Summarize this in 3 sentences'', req_user_id = Some ''u1'',
       req_max_tokens = Some 1000, req_temperature = Some 0.7\<rparr>
      \<lparr>request_logs = [], model_stats = []\<rparr> =
     (Inl (HTTPException 500 ''Error: Connection error.''),
      \<lparr>request_logs = [], model_stats = []\<rparr>)"
proof -
  have h: "rd_status (backend_outcome settings
      (\<lambda>model prompt max_tokens temperature.
         \<lparr>rd_response = ''Error: Connection error.'', rd_tokens_used = 0, rd_latency_ms = 31,
          rd_status = ''error''\<rparr>)
      \<lparr>req_prompt = ''Summarize this in 3 sentences'', req_user_id = Some ''u1'',
       req_max_tokens = Some 1000, req_temperature = Some 0.7\<rparr>) = ''error''"
    by (simp add: backend_outcome_def route_and_generate_def Let_def)
  from backend_error_is_not_logged [OF h, of MODEL_COSTS 35 0 "\<lparr>request_logs = [], model_stats = []\<rparr>"] h
  show ?thesis
    by (simp add: backend_outcome_def route_and_generate_def Let_def)
qed

subsection \<open>Missing prices\<close>

text \<open>
  C6 as stated fails: startup on a fresh database, with the configuration of
  \<^verbatim>\<open>app/config.py\<close>, completes although the table has no price for \<^verbatim>\<open>gpt-4o\<close>, and a
  request then fails at request time on that missing entry.
\<close>

theorem missing_price_counterexample:
  "startup_event settings None = \<lparr>request_logs = [], model_stats = []\<rparr> \<and>
   MODEL_COSTS ''gpt-4o'' = None \<and>
   fst (generate MODEL_COSTS settings
      (\<lambda>model prompt max_tokens temperature.
         \<lparr>rd_response = ''Paris.'', rd_tokens_used = 42, rd_latency_ms = 640, rd_status = ''success''\<rparr>)
      700 0
      \<lparr>req_prompt = ''What is the capital of France?'', req_user_id = None,
       req_max_tokens = Some 1000, req_temperature = Some 0.7\<rparr>
      (startup_event settings None)) =
     Inl (HTTPException 500 (''Internal error: '' @ [CHR 0x27] @ ''gpt-4o'' @ [CHR 0x27]))"
  by code_simp

text \<open>
  C6, amended. Startup checks no price or backend mapping: it initialises the database
  and nothing else. A price missing for the model used or for the baseline key
  \<^verbatim>\<open>gpt-4o\<close> is detected at request time: when the backend outcome is not an error,
  \<^verbatim>\<open>generate\<close> logs an error row and raises a 500 whose detail names the missing key.
\<close>

theorem missing_price_fails_at_request_time:
  assumes "rd_status (backend_outcome st client request) \<noteq> ''error''"
    and "costs (model_for st request) = None \<or> costs ''gpt-4o'' = None"
  shows "startup_event st store = init_db store \<and>
         generate costs st client total_latency now request d =
           (Inl (HTTPException 500 (''Internal error: '' @
                   py_repr (if costs (model_for st request) = None
                            then model_for st request else ''gpt-4o''))),
            add_log (error_log request
                       (KeyError (if costs (model_for st request) = None
                                  then model_for st request else ''gpt-4o'')) now) d)"
proof -
  have "calculate_costs costs (model_for st request)
          (rd_tokens_used (backend_outcome st client request)) =
        Inl (KeyError (if costs (model_for st request) = None
                       then model_for st request else ''gpt-4o''))"
    using assms(2) by (rule calculate_costs_missing)
  from generate_key_error [OF assms(1) this] show ?thesis
    by (simp add: startup_event_def)
qed

text \<open>C6, amended, with \<^verbatim>\<open>MEDIUM_MODEL\<close> set to a model that the price table does not hold.\<close>

theorem missing_price_fails_at_request_time_witness:
  "rd_status (backend_outcome (settings\<lparr>medium_model := ''llama-3-70b''\<rparr>)
      (\<lambda>model prompt max_tokens temperature.
         \<lparr>rd_response = ''Hello!'', rd_tokens_used = 12, rd_latency_ms = 410, rd_status = ''success''\<rparr>)
      \<lparr>req_prompt = ''hello there'', req_user_id = None, req_max_tokens = None,
       req_temperature = None\<rparr>) \<noteq> ''error'' \<and>
   (MODEL_COSTS
      (model_for (settings\<lparr>medium_model := ''llama-3-70b''\<rparr>)
         \<lparr>req_prompt = ''hello there'', req_user_id = None,
          req_max_tokens = None, req_temperature = None\<rparr>) = None \<or>
    MODEL_COSTS ''gpt-4o'' = None) \<and>
   generate MODEL_COSTS (settings\<lparr>medium_model := ''llama-3-70b''\<rparr>)
      (\<lambda>model prompt max_tokens temperature.
         \<lparr>rd_response = ''Hello!'', rd_tokens_used = 12, rd_latency_ms = 410, rd_status = ''success''\<rparr>)
      450 7
      \<lparr>req_prompt = ''hello there'', req_user_id = None, req_max_tokens = None,
       req_temperature = None\<rparr>
      \<lparr>request_logs = [], model_stats = []\<rparr> =
     (Inl (HTTPException 500 (''Internal error: '' @ [CHR 0x27] @ ''llama-3-70b'' @ [CHR 0x27])),
      \<lparr>request_logs =
         [\<lparr>log_id = 1, log_timestamp = 7, log_prompt = ''hello there'', log_prompt_tokens = None,
           log_difficulty = ''unknown'', log_confidence = 0, log_selected_model = ''error'',
           log_response = ''Error: '' @ [CHR 0x27] @ ''llama-3-70b'' @ [CHR 0x27],
           log_response_tokens = None, log_latency_ms = None, log_cost_usd = None,
           log_cost_saved_usd = None, log_user_id = None, log_status = ''error''\<rparr>],
       model_stats = []\<rparr>)"
proof -
  let ?st = "settings\<lparr>medium_model := ''llama-3-70b''\<rparr>"
  let ?client = "\<lambda>(model::string) (prompt::string) (max_tokens::int option) (temperature::real option).
         \<lparr>rd_response = ''Hello!'', rd_tokens_used = 12, rd_latency_ms = 410, rd_status = ''success''\<rparr>"
  let ?req = "\<lparr>req_prompt = ''hello there'', req_user_id = None, req_max_tokens = None,
       req_temperature = None\<rparr>"
  have h1: "rd_status (backend_outcome ?st ?client ?req) \<noteq> ''error''"
    by (simp add: backend_outcome_def route_and_generate_def Let_def)
  have m: "model_for ?st ?req = ''llama-3-70b''"
    by code_simp
  have n: "MODEL_COSTS ''llama-3-70b'' = None"
    by (simp add: MODEL_COSTS_def)
  have h2: "MODEL_COSTS (model_for ?st ?req) = None \<or> MODEL_COSTS ''gpt-4o'' = None"
    by (simp add: m n)
  have r: "py_repr ''llama-3-70b'' = [CHR 0x27] @ ''llama-3-70b'' @ [CHR 0x27]"
    by code_simp
  from missing_price_fails_at_request_time [OF h1 h2, of None 450 7 "\<lparr>request_logs = [], model_stats = []\<rparr>"] h1 h2
  show ?thesis
    by (simp add: m n r add_log_def error_log_def next_id_def)
qed

subsection \<open>Statistics without successful requests\<close>

text \<open>
  C10. When no request log has status \<^verbatim>\<open>success\<close>, \<^verbatim>\<open>get_stats\<close> returns the all-zero
  result: no requests, cost 0, savings 0, an empty breakdown and average latency 0. It
  does not divide by the empty count.
\<close>

theorem get_stats_without_success:
  assumes "filter (\<lambda>l. log_status l = ''success'') (request_logs d) = []"
  shows "get_stats d = Inr \<lparr>sr_total_requests = 0, sr_total_cost_usd = 0, sr_total_saved_usd = 0,
                   sr_model_breakdown = Map.empty, sr_avg_latency_ms = 0\<rparr>"
  using assms by (simp add: get_stats_def)

text \<open>C10 at a database with one error row and one statistics row.\<close>

theorem get_stats_without_success_witness:
  "filter (\<lambda>l. log_status l = ''success'')
     (request_logs
        \<lparr>request_logs =
           [error_log \<lparr>req_prompt = ''hello'', req_user_id = None, req_max_tokens = None,
                       req_temperature = None\<rparr> (KeyError ''gpt-4o'') 0 1],
         model_stats =
           [\<lparr>ms_id = 1, ms_model_name = ''anthropic/claude-3-haiku'', ms_total_requests = 3,
             ms_total_tokens = 120, ms_total_cost_usd = 0.00012, ms_avg_latency_ms = 800,
             ms_last_updated = 0\<rparr>]\<rparr>) = [] \<and>
   get_stats
        \<lparr>request_logs =
           [error_log \<lparr>req_prompt = ''hello'', req_user_id = None, req_max_tokens = None,
                       req_temperature = None\<rparr> (KeyError ''gpt-4o'') 0 1],
         model_stats =
           [\<lparr>ms_id = 1, ms_model_name = ''anthropic/claude-3-haiku'', ms_total_requests = 3,
             ms_total_tokens = 120, ms_total_cost_usd = 0.00012, ms_avg_latency_ms = 800,
             ms_last_updated = 0\<rparr>]\<rparr> =
     Inr \<lparr>sr_total_requests = 0, sr_total_cost_usd = 0, sr_total_saved_usd = 0,
          sr_model_breakdown = Map.empty, sr_avg_latency_ms = 0\<rparr>"
proof -
  let ?d = "\<lparr>request_logs =
           [error_log \<lparr>req_prompt = ''hello'', req_user_id = None, req_max_tokens = None,
                       req_temperature = None\<rparr> (KeyError ''gpt-4o'') 0 1],
         model_stats =
           [\<lparr>ms_id = 1, ms_model_name = ''anthropic/claude-3-haiku'', ms_total_requests = 3,
             ms_total_tokens = 120, ms_total_cost_usd = 0.00012, ms_avg_latency_ms = 800,
             ms_last_updated = 0\<rparr>]\<rparr>"
  have h: "filter (\<lambda>l. log_status l = ''success'') (request_logs ?d) = []"
    by (simp add: error_log_def)
  from get_stats_without_success [OF h] h show ?thesis by blast
qed

end
